theory Spec2Isabelle
  imports Main
begin

section \<open>Errors and envelopes\<close>

text \<open>
  The handlers of the user controller throw either an \<open>ApiError\<close> (the class
  shown in the README: a status code and a message, with \<open>errors = []\<close>,
  \<open>data = null\<close> and \<open>success = false\<close> at every use in the controller), or
  a JavaScript \<open>TypeError\<close> (reading a property of \<open>undefined\<close>), or an error of
  a library (the file system, the token library, the password hashing, the database).
  A thrown error is the left injection of the handler's result.
\<close>

datatype error =
    ApiError nat string
  | TypeError string
  | Error string

fun message_of :: "error \<Rightarrow> string" where
  "message_of (ApiError c m) = m"
| "message_of (TypeError m) = m"
| "message_of (Error m) = m"

section \<open>The upload helper (src/utils/cloudinary.js)\<close>

text \<open>
  The remote media host is an external collaborator: for a local path its uploader
  either resolves with a response, or rejects, or throws before it returns a promise.
\<close>

record upload_response =
  url :: string

datatype upload_outcome =
    Resolved upload_response
  | Rejected
  | Thrown

text \<open>
  The environment of a request: the secrets and lifetimes read from
  \<open>process.env\<close>, the clock, the password hashing of the persistence layer and the
  uploader of the media host.
\<close>

record env =
  ACCESS_TOKEN_SECRET :: string
  ACCESS_TOKEN_EXPIRY :: nat
  REFRESH_TOKEN_SECRET :: string
  REFRESH_TOKEN_EXPIRY :: nat
  now :: nat
  bcrypt_hash :: "string \<Rightarrow> string"
  bcrypt_compare :: "string \<Rightarrow> string \<Rightarrow> bool"
  cloudinary_upload :: "string \<Rightarrow> upload_outcome"

text \<open>
  A signed token: the secret it was signed with stands for its signature; the claim
  set is the subject (a user id), the time of issue and the expiry.
\<close>

record token =
  tk_secret :: string
  tk_sub :: nat
  tk_iat :: nat
  tk_exp :: nat

text \<open>
  A user document without its \<open>_id\<close>. The hashed secret and the stored
  refresh token are \<open>None\<close> when the field is absent from the document (never
  set, cleared, or deselected by \<open>select\<close>).
\<close>

record user =
  username :: string
  email :: string
  fullName :: string
  avatar :: string
  coverImage :: string
  password :: "string option"
  refreshToken :: "token option"

type_synonym doc = "nat \<times> user"

text \<open>
  The state the handlers act on: the user collection (documents by \<open>_id\<close>, ids
  handed out in increasing order) and the temporary files on the local disk.
\<close>

record state =
  users :: "nat \<Rightarrow> user option"
  next_id :: nat
  local_files :: "string set"

text \<open>\<open>fs.unlinkSync\<close>: removes the file, and throws when there is none.\<close>

definition unlinkSync :: "string \<Rightarrow> state \<Rightarrow> error + state" where
  "unlinkSync path s =
     (if path \<in> local_files s
      then Inr (s\<lparr>local_files := local_files s - {path}\<rparr>)
      else Inl (Error ''ENOENT: no such file or directory, unlink''))"

text \<open>
  The body of the \<open>try\<close> block of \<open>uploadOnCloudnary\<close> for a truthy path. A
  rejected upload is swallowed by \<open>.catch\<close>, which leaves \<open>response\<close> undefined
  (\<open>None\<close>); an uploader that throws, or an \<open>unlinkSync\<close> that throws, leaves the
  block with an error.
\<close>

definition upload_try :: "env \<Rightarrow> string \<Rightarrow> state \<Rightarrow> error + (upload_response option \<times> state)" where
  "upload_try e localFilePath s =
     (case cloudinary_upload e localFilePath of
        Thrown \<Rightarrow> Inl (Error ''upload failed'')
      | Rejected \<Rightarrow>
          (case unlinkSync localFilePath s of
             Inl err \<Rightarrow> Inl err
           | Inr s' \<Rightarrow> Inr (None, s'))
      | Resolved response \<Rightarrow>
          (case unlinkSync localFilePath s of
             Inl err \<Rightarrow> Inl err
           | Inr s' \<Rightarrow> Inr (Some response, s')))"

text \<open>
  \<open>uploadOnCloudnary\<close>: a falsy path (\<open>undefined\<close> or the empty string) returns
  \<open>null\<close> at once; otherwise the \<open>try\<close> block runs, and its \<open>catch\<close> unlinks the
  file again and returns \<open>null\<close>. An error thrown inside the \<open>catch\<close> leaves the
  function. The result \<open>None\<close> stands for \<open>null\<close> and for \<open>undefined\<close>.
\<close>

definition uploadOnCloudnary ::
  "env \<Rightarrow> string option \<Rightarrow> state \<Rightarrow> (error + upload_response option) \<times> state" where
  "uploadOnCloudnary e localFilePath s =
     (case localFilePath of
        None \<Rightarrow> (Inr None, s)
      | Some path \<Rightarrow>
          if path = [] then (Inr None, s)
          else
            (case upload_try e path s of
               Inr (response, s') \<Rightarrow> (Inr response, s')
             | Inl _ \<Rightarrow>
                 (case unlinkSync path s of
                    Inl err \<Rightarrow> (Inl err, s)
                  | Inr s' \<Rightarrow> (Inr None, s'))))"

section \<open>Tokens\<close>

text \<open>
  \<open>jwt.verify\<close> of the token library: a missing token, a signature made with
  another secret and an expired token are each an error; otherwise the decoded claim
  set is returned.
\<close>

definition jwt_verify :: "token option \<Rightarrow> string \<Rightarrow> nat \<Rightarrow> error + token" where
  "jwt_verify tok secret clock =
     (case tok of
        None \<Rightarrow> Inl (Error ''jwt must be provided'')
      | Some t \<Rightarrow>
          if tk_secret t \<noteq> secret then Inl (Error ''invalid signature'')
          else if tk_exp t \<le> clock then Inl (Error ''jwt expired'')
          else Inr t)"

text \<open>
  Modelled from the spec: the token-minting methods of the identity record
  (\<open>generateAccessToken\<close>, \<open>generateRefreshToken\<close> of the user model, which is
  not among the sources). The spec makes each token a signed claim set whose subject is
  the user id, short-lived for the access token and longer-lived for the refresh token.
\<close>

definition generateAccessToken :: "env \<Rightarrow> doc \<Rightarrow> token" where
  "generateAccessToken e d =
     \<lparr>tk_secret = ACCESS_TOKEN_SECRET e, tk_sub = fst d,
      tk_iat = now e, tk_exp = now e + ACCESS_TOKEN_EXPIRY e\<rparr>"

definition generateRefreshToken :: "env \<Rightarrow> doc \<Rightarrow> token" where
  "generateRefreshToken e d =
     \<lparr>tk_secret = REFRESH_TOKEN_SECRET e, tk_sub = fst d,
      tk_iat = now e, tk_exp = now e + REFRESH_TOKEN_EXPIRY e\<rparr>"

text \<open>
  Modelled from the spec: \<open>isPasswordCorrrect\<close> of the user model (not among the
  sources), the one-way check of a supplied secret against the stored hash. The check of
  the hashing library needs both arguments and throws without one.
\<close>

definition isPasswordCorrrect :: "env \<Rightarrow> doc \<Rightarrow> string option \<Rightarrow> error + bool" where
  "isPasswordCorrrect e d pw =
     (case pw of
        None \<Rightarrow> Inl (Error ''data and hash arguments required'')
      | Some p \<Rightarrow>
          (case password (snd d) of
             None \<Rightarrow> Inl (Error ''data and hash arguments required'')
           | Some h \<Rightarrow> Inr (bcrypt_compare e p h)))"

section \<open>The persistence layer\<close>

text \<open>The documents of the collection, in the order of their ids.\<close>

definition docs :: "state \<Rightarrow> doc list" where
  "docs s = List.map_filter (\<lambda>i. map_option (Pair i) (users s i)) [0..<next_id s]"

definition findById :: "nat \<Rightarrow> state \<Rightarrow> doc option" where
  "findById i s = map_option (Pair i) (users s i)"

text \<open>
  \<open>User.findOne({$or: [{username}, {email}]})\<close>: the first document whose
  username or whose email equals the given one. Every document has both fields, so a
  clause whose value is \<open>undefined\<close> matches no document.
\<close>

definition findOne_or :: "string option \<Rightarrow> string option \<Rightarrow> state \<Rightarrow> doc option" where
  "findOne_or qu qe s =
     find (\<lambda>d. qu = Some (username (snd d)) \<or> qe = Some (email (snd d))) (docs s)"

text \<open>\<open>user.save({validateBeforeSave: false})\<close>: writes the document back.\<close>

definition save :: "doc \<Rightarrow> state \<Rightarrow> state" where
  "save d s = s\<lparr>users := (users s)(fst d \<mapsto> snd d)\<rparr>"

text \<open>
  \<open>User.findByIdAndUpdate(id, {$set: {refreshToken: v}}, {new: true})\<close>. The
  persistence library removes from an update every key whose value is \<open>undefined\<close>
  before the update is applied; so with \<open>undefined\<close> (\<open>None\<close>) nothing is left
  to set and the document stays as it is. With a value, the field of the document of
  that id, if there is one, is set to it.
\<close>

definition findByIdAndUpdate :: "nat \<Rightarrow> token option \<Rightarrow> state \<Rightarrow> state" where
  "findByIdAndUpdate i set_refreshToken s =
     (case set_refreshToken of
        None \<Rightarrow> s
      | Some t \<Rightarrow>
          (case users s i of
             None \<Rightarrow> s
           | Some u \<Rightarrow> s\<lparr>users := (users s)(i \<mapsto> u\<lparr>refreshToken := Some t\<rparr>)\<rparr>))"

text \<open>The projection \<open>select("-password -refreshToken")\<close>.\<close>

definition select_public :: "doc \<Rightarrow> doc" where
  "select_public d = (fst d, (snd d)\<lparr>password := None, refreshToken := None\<rparr>)"

text \<open>The object literal handed to \<open>User.create\<close> by the registration handler.\<close>

record new_user =
  nu_fullName :: "string option"
  nu_avatar :: string
  nu_coverImage :: string
  nu_email :: "string option"
  nu_password :: "string option"
  nu_username :: string

text \<open>
  Modelled from the spec: \<open>User.create\<close> of the user model (not among the
  sources). The spec's identity record has a username, an email, a display name and a
  hashed secret, and only the image references and the refresh token are optional; the
  persistence layer enforces the uniqueness of username and email and hashes the secret
  before storage. The new document gets the next id and no refresh token.
\<close>

definition User_create :: "env \<Rightarrow> new_user \<Rightarrow> state \<Rightarrow> (error + doc) \<times> state" where
  "User_create e n s =
     (case (nu_fullName n, nu_email n, nu_password n) of
        (Some fn, Some em, Some pw) \<Rightarrow>
          if list_ex (\<lambda>d. username (snd d) = nu_username n \<or> email (snd d) = em) (docs s)
          then (Inl (Error ''E11000 duplicate key error''), s)
          else
            (let u = \<lparr>username = nu_username n, email = em, fullName = fn,
                      avatar = nu_avatar n, coverImage = nu_coverImage n,
                      password = Some (bcrypt_hash e pw), refreshToken = None\<rparr>
             in (Inr (next_id s, u),
                 s\<lparr>users := (users s)(next_id s \<mapsto> u), next_id := Suc (next_id s)\<rparr>))
      | _ \<Rightarrow> (Inl (Error ''User validation failed''), s))"

section \<open>Requests and responses\<close>

text \<open>A file stored on the local disk by the multipart middleware.\<close>

record multer_file =
  file_path :: string

record req_files =
  files_avatar :: "multer_file list option"
  files_coverImage :: "multer_file list option"

text \<open>
  The parts of the request the handlers read: the body fields, the refresh-token
  cookie, \<open>req.files\<close>, \<open>req.coverImage\<close> (a property that no middleware of
  the route table sets) and the principal \<open>req.user\<close> attached by the
  authentication guard. A value that is \<open>undefined\<close> is \<open>None\<close>; for a token,
  \<open>None\<close> stands for every falsy value. The body and the cookies themselves are
  objects, as the parsers of the application leave them.
\<close>

record request =
  body_fullName :: "string option"
  body_email :: "string option"
  body_username :: "string option"
  body_password :: "string option"
  body_refreshToken :: "token option"
  cookies_refreshToken :: "token option"
  files :: "req_files option"
  req_coverImage :: "multer_file list option"
  req_user :: "doc option"

record cookie_options =
  httpOnly :: bool
  secure :: bool

datatype cookie_op =
    Cookie string "token option" cookie_options
  | ClearCookie string cookie_options

datatype payload =
    UserData doc
  | LoginData "doc option" token token
  | EmptyData
  | TokenData token "token option"

text \<open>
  Modelled from the spec: the success envelope \<open>ApiResponce\<close> (its class is not
  among the sources), \<open>{code, data, message, success = true}\<close>, built from the
  constructor's arguments in this order.
\<close>

record api_responce =
  statusCode :: nat
  data :: payload
  message :: string
  success :: bool

definition ApiResponce :: "nat \<Rightarrow> payload \<Rightarrow> string \<Rightarrow> api_responce" where
  "ApiResponce c d m = \<lparr>statusCode = c, data = d, message = m, success = True\<rparr>"

text \<open>What a handler leaves on \<open>res\<close>: the status, the cookie calls in order, the body.\<close>

record response =
  status :: nat
  cookie_ops :: "cookie_op list"
  json :: api_responce

definition options :: cookie_options where
  "options = \<lparr>httpOnly = True, secure = True\<rparr>"

section \<open>JavaScript strings\<close>

text \<open>
  A character is a code unit below 256. \<open>String.prototype.trim\<close> strips white
  space from both ends (the white space below 256: tab, line feed, vertical tab, form
  feed, carriage return, space, no-break space). \<open>toLowerCase\<close> maps each capital
  letter to its small letter: below 256 these are \<open>A\<close> to \<open>Z\<close> and the
  capitals \<open>0xC0\<close> to \<open>0xDE\<close> without the multiplication sign \<open>0xD7\<close>,
  each 32 below its small letter. A value is falsy when it is \<open>undefined\<close> or the
  empty string.
\<close>

definition is_space :: "char \<Rightarrow> bool" where
  "is_space c = (c \<in> set [CHR '' '', CHR 0x09, CHR 0x0A, CHR 0x0B, CHR 0x0C, CHR 0x0D, CHR 0xA0])"

definition trim :: "string \<Rightarrow> string" where
  "trim str = rev (dropWhile is_space (rev (dropWhile is_space str)))"

definition upper_case :: string where
  "upper_case =
     ''ABCDEFGHIJKLMNOPQRSTUVWXYZ'' @
     [CHR 0xC0, CHR 0xC1, CHR 0xC2, CHR 0xC3, CHR 0xC4, CHR 0xC5, CHR 0xC6, CHR 0xC7,
     CHR 0xC8, CHR 0xC9, CHR 0xCA, CHR 0xCB, CHR 0xCC, CHR 0xCD, CHR 0xCE, CHR 0xCF,
     CHR 0xD0, CHR 0xD1, CHR 0xD2, CHR 0xD3, CHR 0xD4, CHR 0xD5, CHR 0xD6, CHR 0xD8,
     CHR 0xD9, CHR 0xDA, CHR 0xDB, CHR 0xDC, CHR 0xDD, CHR 0xDE]"

definition lower_case :: string where
  "lower_case =
     ''abcdefghijklmnopqrstuvwxyz'' @
     [CHR 0xE0, CHR 0xE1, CHR 0xE2, CHR 0xE3, CHR 0xE4, CHR 0xE5, CHR 0xE6, CHR 0xE7,
     CHR 0xE8, CHR 0xE9, CHR 0xEA, CHR 0xEB, CHR 0xEC, CHR 0xED, CHR 0xEE, CHR 0xEF,
     CHR 0xF0, CHR 0xF1, CHR 0xF2, CHR 0xF3, CHR 0xF4, CHR 0xF5, CHR 0xF6, CHR 0xF8,
     CHR 0xF9, CHR 0xFA, CHR 0xFB, CHR 0xFC, CHR 0xFD, CHR 0xFE]"

definition toLowerCase :: "string \<Rightarrow> string" where
  "toLowerCase str =
     map (\<lambda>c. case map_of (zip upper_case lower_case) c of
                 None \<Rightarrow> c
               | Some l \<Rightarrow> l) str"

definition falsy :: "string option \<Rightarrow> bool" where
  "falsy v = (v = None \<or> v = Some [])"

section \<open>The user controller\<close>

subsection \<open>generateAccessAndRefreshTokens\<close>

text \<open>
  Inside the \<open>try\<close>: load the user, mint both tokens, store the refresh token on
  the record and save it. When no user has that id, the call of a method on \<open>null\<close>
  throws, and the \<open>catch\<close> turns every error of the block into the 500 error.
\<close>

definition generateAccessAndRefreshTokens ::
  "env \<Rightarrow> nat \<Rightarrow> state \<Rightarrow> (error + token \<times> token) \<times> state" where
  "generateAccessAndRefreshTokens e userId s =
     (case findById userId s of
        None \<Rightarrow>
          (Inl (ApiError 500 ''Something went wromg while generating access and refresh tokens''), s)
      | Some usr \<Rightarrow>
          (let accessTok = generateAccessToken e usr;
               refreshTok = generateRefreshToken e usr;
               usr' = (fst usr, (snd usr)\<lparr>refreshToken := Some refreshTok\<rparr>)
           in (Inr (accessTok, refreshTok), save usr' s)))"

subsection \<open>registerUser\<close>

text \<open>The test of the validation: \<open>feild?.trim() === ""\<close>.\<close>

definition feild_empty :: "string option \<Rightarrow> bool" where
  "feild_empty feild = (map_option trim feild = Some [])"

text \<open>\<open>req.files?.avatar[0]?.path\<close>.\<close>

definition avatarLocalPath_of :: "request \<Rightarrow> error + string option" where
  "avatarLocalPath_of req =
     (case files req of
        None \<Rightarrow> Inr None
      | Some fs \<Rightarrow>
          (case files_avatar fs of
             None \<Rightarrow> Inl (TypeError ''Cannot read properties of undefined (reading 0)'')
           | Some [] \<Rightarrow> Inr None
           | Some (f # _) \<Rightarrow> Inr (Some (file_path f))))"

text \<open>
  The cover image path:
  \<open>if (req.files && Array.isArray(req.files.coverImage) && req.coverImage.length > 0)
  coverImageLocalPath = req.files.coverImage[0].path\<close>. The third conjunct reads
  \<open>req.coverImage\<close>, not \<open>req.files.coverImage\<close>.
\<close>

definition coverImageLocalPath_of :: "request \<Rightarrow> error + string option" where
  "coverImageLocalPath_of req =
     (case files req of
        None \<Rightarrow> Inr None
      | Some fs \<Rightarrow>
          (case files_coverImage fs of
             None \<Rightarrow> Inr None
           | Some arr \<Rightarrow>
               (case req_coverImage req of
                  None \<Rightarrow> Inl (TypeError ''Cannot read properties of undefined (reading length)'')
                | Some other \<Rightarrow>
                    if length other > 0
                    then (case arr of
                            [] \<Rightarrow> Inl (TypeError ''Cannot read properties of undefined (reading path)'')
                          | f # _ \<Rightarrow> Inr (Some (file_path f)))
                    else Inr None)))"

text \<open>
  From \<open>User.create\<close> to the response. \<open>username.toLowerCase()\<close> throws on an
  undefined username before \<open>User.create\<close> is called.
\<close>

definition register_create ::
  "env \<Rightarrow> request \<Rightarrow> upload_response \<Rightarrow> upload_response option \<Rightarrow> state
     \<Rightarrow> (error + response) \<times> state" where
  "register_create e req av cover s =
     (case body_username req of
        None \<Rightarrow> (Inl (TypeError ''Cannot read properties of undefined (reading toLowerCase)''), s)
      | Some uname \<Rightarrow>
          (case User_create e
                  \<lparr>nu_fullName = body_fullName req,
                   nu_avatar = url av,
                   nu_coverImage = (case cover of None \<Rightarrow> [] | Some c \<Rightarrow> url c),
                   nu_email = body_email req,
                   nu_password = body_password req,
                   nu_username = toLowerCase uname\<rparr> s of
             (Inl err, s') \<Rightarrow> (Inl err, s')
           | (Inr usr, s') \<Rightarrow>
               (case map_option select_public (findById (fst usr) s') of
                  None \<Rightarrow> (Inl (ApiError 500 ''Something went wrong while registration''), s')
                | Some createdUser \<Rightarrow>
                    (Inr \<lparr>status = 201, cookie_ops = [],
                          json = ApiResponce 200 (UserData createdUser) ''User registered sucessfully''\<rparr>,
                     s'))))"

text \<open>The two uploads, the check of the avatar, then the creation.\<close>

definition register_upload ::
  "env \<Rightarrow> request \<Rightarrow> string option \<Rightarrow> string option \<Rightarrow> state \<Rightarrow> (error + response) \<times> state" where
  "register_upload e req avatarLocalPath coverImageLocalPath s =
     (case uploadOnCloudnary e avatarLocalPath s of
        (Inl err, s1) \<Rightarrow> (Inl err, s1)
      | (Inr av, s1) \<Rightarrow>
          (case uploadOnCloudnary e coverImageLocalPath s1 of
             (Inl err, s2) \<Rightarrow> (Inl err, s2)
           | (Inr cover, s2) \<Rightarrow>
               (case av of
                  None \<Rightarrow> (Inl (ApiError 400 ''Avatar is required''), s2)
                | Some a \<Rightarrow> register_create e req a cover s2)))"

definition registerUser :: "env \<Rightarrow> request \<Rightarrow> state \<Rightarrow> (error + response) \<times> state" where
  "registerUser e req s =
     (if list_ex feild_empty [body_fullName req, body_email req, body_username req, body_password req]
      then (Inl (ApiError 400 ''All fields are required''), s)
      else
        (case findOne_or (body_username req) (body_email req) s of
           Some existedUser \<Rightarrow> (Inl (ApiError 409 ''User with email or username already exists''), s)
         | None \<Rightarrow>
             (case avatarLocalPath_of req of
                Inl err \<Rightarrow> (Inl err, s)
              | Inr avatarLocalPath \<Rightarrow>
                  (case coverImageLocalPath_of req of
                     Inl err \<Rightarrow> (Inl err, s)
                   | Inr coverImageLocalPath \<Rightarrow>
                       if falsy avatarLocalPath
                       then (Inl (ApiError 400 ''Avatar file is required''), s)
                       else register_upload e req avatarLocalPath coverImageLocalPath s))))"

subsection \<open>loginUser\<close>

definition loginUser :: "env \<Rightarrow> request \<Rightarrow> state \<Rightarrow> (error + response) \<times> state" where
  "loginUser e req s =
     (if falsy (body_username req) \<and> falsy (body_email req)
      then (Inl (ApiError 400 ''Username or email is required''), s)
      else
        (case findOne_or (body_username req) (body_email req) s of
           None \<Rightarrow> (Inl (ApiError 404 ''User not exist''), s)
         | Some usr \<Rightarrow>
             (case isPasswordCorrrect e usr (body_password req) of
                Inl err \<Rightarrow> (Inl err, s)
              | Inr isPasswordValid \<Rightarrow>
                  if \<not> isPasswordValid
                  then (Inl (ApiError 401 ''Invalid user credentials''), s)
                  else
                    (case generateAccessAndRefreshTokens e (fst usr) s of
                       (Inl err, s') \<Rightarrow> (Inl err, s')
                     | (Inr (accessTok, refreshTok), s') \<Rightarrow>
                         (let loggedInUser = map_option select_public (findById (fst usr) s')
                          in (Inr \<lparr>status = 200,
                                   cookie_ops = [Cookie ''accessToken'' (Some accessTok) options,
                                                 Cookie ''refreshToken'' (Some refreshTok) options],
                                   json = ApiResponce 200
                                            (LoginData loggedInUser accessTok refreshTok)
                                            ''User logged in succesfully''\<rparr>,
                              s'))))))"

subsection \<open>logoutUser\<close>

text \<open>
  \<open>req.user._id\<close> throws when no principal is attached. The update is
  \<open>{$set: {refreshToken: undefined}}\<close>.
\<close>

definition logoutUser :: "env \<Rightarrow> request \<Rightarrow> state \<Rightarrow> (error + response) \<times> state" where
  "logoutUser e req s =
     (case req_user req of
        None \<Rightarrow> (Inl (TypeError ''Cannot read properties of undefined (reading _id)''), s)
      | Some authUser \<Rightarrow>
          (let s' = findByIdAndUpdate (fst authUser) None s
           in (Inr \<lparr>status = 200,
                    cookie_ops = [ClearCookie ''accessToken'' options,
                                  ClearCookie ''refreshToken'' options],
                    json = ApiResponce 200 EmptyData ''User logged out''\<rparr>,
               s')))"

subsection \<open>refreshAccessToken\<close>

text \<open>
  The \<open>try\<close> block. The pair returned by \<open>generateAccessAndRefreshTokens\<close> has
  the keys \<open>accessToken\<close> and \<open>refreshToken\<close>; the handler destructures
  \<open>newrefreshToken\<close>, a key the pair does not have, so that value is
  \<open>undefined\<close>.
\<close>

definition refresh_try ::
  "env \<Rightarrow> token option \<Rightarrow> state \<Rightarrow> (error + response) \<times> state" where
  "refresh_try e incomingRefreshToken s =
     (case jwt_verify incomingRefreshToken (REFRESH_TOKEN_SECRET e) (now e) of
        Inl err \<Rightarrow> (Inl err, s)
      | Inr decodedToken \<Rightarrow>
          (case findById (tk_sub decodedToken) s of
             None \<Rightarrow> (Inl (ApiError 401 ''Invalid refresh token''), s)
           | Some usr \<Rightarrow>
               if incomingRefreshToken \<noteq> refreshToken (snd usr)
               then (Inl (ApiError 401 ''Refresh token is expired or used''), s)
               else
                 (case generateAccessAndRefreshTokens e (fst usr) s of
                    (Inl err, s') \<Rightarrow> (Inl err, s')
                  | (Inr (accessTok, refreshTok), s') \<Rightarrow>
                      (let newrefreshToken = None
                       in (Inr \<lparr>status = 200,
                                cookie_ops = [Cookie ''accessToken'' (Some accessTok) options,
                                              Cookie ''refreshToken'' newrefreshToken options],
                                json = ApiResponce 200
                                         (TokenData accessTok newrefreshToken)
                                         ''Access token refreshed''\<rparr>,
                           s')))))"

text \<open>
  The handler: the token of the cookie, or else of the body; the guard
  \<open>if (incomingRefreshToken) throw new ApiError(401, "Unauthorized request")\<close>;
  the \<open>try\<close> block, whose every error the \<open>catch\<close> rethrows as a 401 error with
  the same message (or "Invalid refresh token" when the message is empty).
\<close>

definition refreshAccessToken :: "env \<Rightarrow> request \<Rightarrow> state \<Rightarrow> (error + response) \<times> state" where
  "refreshAccessToken e req s =
     (let incomingRefreshToken =
            (case cookies_refreshToken req of
               Some t \<Rightarrow> Some t
             | None \<Rightarrow> body_refreshToken req)
      in if incomingRefreshToken \<noteq> None
         then (Inl (ApiError 401 ''Unauthorized request''), s)
         else
           (case refresh_try e incomingRefreshToken s of
              (Inr resp, s') \<Rightarrow> (Inr resp, s')
            | (Inl err, s') \<Rightarrow>
                (Inl (ApiError 401 (if message_of err = [] then ''Invalid refresh token''
                                    else message_of err)), s')))"

section \<open>Concrete requests\<close>

text \<open>
  An environment whose uploader resolves, and the spec's example: an empty collection,
  an avatar (and a cover image) stored on the local disk by the multipart middleware, and
  the registration \<open>fullName = "A"\<close>, \<open>email = "a@x.com"\<close>, \<open>username = "a"\<close>,
  \<open>password = "p"\<close> with the avatar attached.
\<close>

definition example_env :: env where
  "example_env =
     \<lparr>ACCESS_TOKEN_SECRET = ''access-secret'', ACCESS_TOKEN_EXPIRY = 86400,
      REFRESH_TOKEN_SECRET = ''refresh-secret'', REFRESH_TOKEN_EXPIRY = 864000,
      now = 1000,
      bcrypt_hash = (\<lambda>p. ''hashed:'' @ p),
      bcrypt_compare = (\<lambda>p h. h = ''hashed:'' @ p),
      cloudinary_upload = (\<lambda>p. Resolved \<lparr>url = ''http://cloud/'' @ p\<rparr>)\<rparr>"

definition empty_state :: state where
  "empty_state =
     \<lparr>users = (\<lambda>i. None), next_id = 0,
      local_files = {''public/temp/avatar.png'', ''public/temp/cover.png''}\<rparr>"

definition no_request :: request where
  "no_request =
     \<lparr>body_fullName = None, body_email = None, body_username = None, body_password = None,
      body_refreshToken = None, cookies_refreshToken = None, files = None,
      req_coverImage = None, req_user = None\<rparr>"

definition register_request :: request where
  "register_request =
     no_request
       \<lparr>body_fullName := Some ''A'', body_email := Some ''a@x.com'',
        body_username := Some ''a'', body_password := Some ''p'',
        files := Some \<lparr>files_avatar = Some [\<lparr>file_path = ''public/temp/avatar.png''\<rparr>],
                       files_coverImage = None\<rparr>\<rparr>"

text \<open>The same registration with a cover image attached as well.\<close>

definition register_request_with_cover :: request where
  "register_request_with_cover =
     register_request
       \<lparr>files := Some \<lparr>files_avatar = Some [\<lparr>file_path = ''public/temp/avatar.png''\<rparr>],
                       files_coverImage = Some [\<lparr>file_path = ''public/temp/cover.png''\<rparr>]\<rparr>\<rparr>"

text \<open>The same registration with the username left out of the payload.\<close>

definition register_request_no_username :: request where
  "register_request_no_username = register_request\<lparr>body_username := None\<rparr>"

text \<open>
  The user the example registration creates, the refresh token a login at time 1000
  mints for it, and the collection that holds the user with that token stored.
\<close>

definition user_a :: user where
  "user_a =
     \<lparr>username = ''a'', email = ''a@x.com'', fullName = ''A'',
      avatar = ''http://cloud/public/temp/avatar.png'', coverImage = [],
      password = Some ''hashed:p'', refreshToken = None\<rparr>"

definition token_a :: token where
  "token_a = \<lparr>tk_secret = ''refresh-secret'', tk_sub = 0, tk_iat = 1000, tk_exp = 865000\<rparr>"

definition registered_state :: state where
  "registered_state =
     \<lparr>users = (\<lambda>i. if i = 0 then Some user_a else None), next_id = 1, local_files = {}\<rparr>"

definition logged_in_state :: state where
  "logged_in_state =
     \<lparr>users = (\<lambda>i. if i = 0 then Some (user_a\<lparr>refreshToken := Some token_a\<rparr>) else None),
      next_id = 1, local_files = {}\<rparr>"

text \<open>A login by email, and the same with a wrong secret and with an unknown email.\<close>

definition login_request :: request where
  "login_request = no_request\<lparr>body_email := Some ''a@x.com'', body_password := Some ''p''\<rparr>"

definition login_request_wrong_password :: request where
  "login_request_wrong_password = login_request\<lparr>body_password := Some ''q''\<rparr>"

definition login_request_unknown :: request where
  "login_request_unknown = login_request\<lparr>body_email := Some ''b@x.com''\<rparr>"

text \<open>A refresh presenting the stored token in the cookie, and one presenting a stale one.\<close>

definition refresh_request :: request where
  "refresh_request = no_request\<lparr>cookies_refreshToken := Some token_a\<rparr>"

definition stale_token :: token where
  "stale_token = \<lparr>tk_secret = ''refresh-secret'', tk_sub = 0, tk_iat = 900, tk_exp = 864900\<rparr>"

definition stale_refresh_request :: request where
  "stale_refresh_request = no_request\<lparr>body_refreshToken := Some stale_token\<rparr>"

text \<open>A logout of the principal attached by the authentication guard.\<close>

definition logout_request :: request where
  "logout_request =
     no_request\<lparr>req_user := Some (0, user_a\<lparr>password := None, refreshToken := None\<rparr>)\<rparr>"

section \<open>Evaluation of the definitions\<close>

lemmas handler_defs = registerUser_def register_upload_def register_create_def
  avatarLocalPath_of_def coverImageLocalPath_of_def feild_empty_def falsy_def trim_def is_space_def
  toLowerCase_def upper_case_def lower_case_def User_create_def findOne_or_def docs_def findById_def select_public_def
  uploadOnCloudnary_def upload_try_def unlinkSync_def ApiResponce_def List.map_filter_def
  loginUser_def isPasswordCorrrect_def generateAccessAndRefreshTokens_def generateAccessToken_def
  generateRefreshToken_def save_def options_def logoutUser_def findByIdAndUpdate_def
  refreshAccessToken_def refresh_try_def jwt_verify_def Let_def

lemmas example_defs = example_env_def empty_state_def no_request_def register_request_def
  register_request_with_cover_def register_request_no_username_def user_a_def token_a_def
  registered_state_def logged_in_state_def login_request_def login_request_wrong_password_def
  login_request_unknown_def refresh_request_def stale_token_def stale_refresh_request_def
  logout_request_def

text \<open>Lower-casing at a few letters, inside and outside the ASCII range.\<close>

lemma toLowerCase_example:
  "toLowerCase [CHR ''B'', CHR ''c'', CHR 0xC0, CHR 0xD7, CHR 0xDE, CHR ''1''] =
     [CHR ''b'', CHR ''c'', CHR 0xE0, CHR 0xD7, CHR 0xFE, CHR ''1'']"
  by (simp add: toLowerCase_def upper_case_def lower_case_def)

section \<open>The upload helper\<close>

text \<open>Unlinking a file that exists removes exactly that file.\<close>

lemma unlinkSync_existing:
  "p \<in> local_files s \<Longrightarrow> unlinkSync p s = Inr (s\<lparr>local_files := local_files s - {p}\<rparr>)"
  by (simp add: unlinkSync_def)

text \<open>The upload helper touches the local disk only, not the user collection.\<close>

lemma uploadOnCloudnary_users:
  assumes "uploadOnCloudnary e p s = (r, s')"
  shows "users s' = users s \<and> next_id s' = next_id s"
  using assms
  by (auto simp: uploadOnCloudnary_def upload_try_def unlinkSync_def
      split: option.splits if_splits sum.splits upload_outcome.splits)

text \<open>
  Claim C9, as the code has it. Without a path (or with the empty one) the helper returns
  \<open>null\<close> and touches nothing. With the path of a local file that exists, it returns
  the response of the upload when the upload resolves and no result otherwise, and in
  both cases that file, and no other, is removed from the local disk.
\<close>

theorem uploadOnCloudnary_removes_existing_file:
  "uploadOnCloudnary e None s = (Inr None, s) \<and>
   uploadOnCloudnary e (Some []) s = (Inr None, s) \<and>
   (p \<noteq> [] \<and> p \<in> local_files s \<longrightarrow>
      uploadOnCloudnary e (Some p) s =
        (Inr (case cloudinary_upload e p of Resolved r \<Rightarrow> Some r | Rejected \<Rightarrow> None | Thrown \<Rightarrow> None),
         s\<lparr>local_files := local_files s - {p}\<rparr>))"
  by (simp add: uploadOnCloudnary_def upload_try_def unlinkSync_existing split: upload_outcome.splits)

text \<open>
  The amended claim C9 at the example: the avatar file is on the disk, the upload
  resolves, the response is returned and the file is gone.
\<close>

theorem uploadOnCloudnary_removes_existing_file_witness:
  "(''public/temp/avatar.png'' \<noteq> [] \<and> ''public/temp/avatar.png'' \<in> local_files empty_state) \<and>
   uploadOnCloudnary example_env None empty_state = (Inr None, empty_state) \<and>
   uploadOnCloudnary example_env (Some ''public/temp/avatar.png'') empty_state =
     (Inr (Some \<lparr>url = ''http://cloud/public/temp/avatar.png''\<rparr>),
      empty_state\<lparr>local_files := {''public/temp/cover.png''}\<rparr>)"
proof -
  have h: "''public/temp/avatar.png'' \<noteq> [] \<and> ''public/temp/avatar.png'' \<in> local_files empty_state"
    by (simp add: empty_state_def)
  show ?thesis
    using h uploadOnCloudnary_removes_existing_file
            [of example_env empty_state "''public/temp/avatar.png''"]
    by (simp add: example_env_def empty_state_def)
qed

text \<open>
  Claim C9 as stated (a result for every call) fails when the path names no file on the
  local disk: \<open>unlinkSync\<close> throws in the \<open>try\<close> block and again in the
  \<open>catch\<close> block, and the helper leaves with that error instead of a result.
\<close>

theorem uploadOnCloudnary_missing_file:
  "fst (uploadOnCloudnary example_env (Some ''public/temp/avatar.png'')
          (empty_state\<lparr>local_files := {}\<rparr>)) =
     Inl (Error ''ENOENT: no such file or directory, unlink'')"
  by (simp add: handler_defs example_defs)

section \<open>Refresh\<close>

text \<open>
  The guard of the refresh handler throws whenever a token is presented, in the cookie
  or in the body, whatever the token and whatever the collection holds.
\<close>

lemma refreshAccessToken_presented:
  assumes "cookies_refreshToken req = Some t \<or> body_refreshToken req = Some t"
  shows "refreshAccessToken e req s = (Inl (ApiError 401 ''Unauthorized request''), s)"
  using assms by (auto simp: refreshAccessToken_def split: option.splits)

text \<open>Without a token the guard passes and the token library rejects the missing token.\<close>

lemma refreshAccessToken_absent:
  assumes "cookies_refreshToken req = None" "body_refreshToken req = None"
  shows "refreshAccessToken e req s = (Inl (ApiError 401 ''jwt must be provided''), s)"
  using assms by (simp add: refreshAccessToken_def refresh_try_def jwt_verify_def)

text \<open>So the refresh handler never answers: every request ends in a 401 error.\<close>

lemma refreshAccessToken_never_succeeds:
  "\<exists>m. refreshAccessToken e req s = (Inl (ApiError 401 m), s)"
proof (cases "cookies_refreshToken req")
  case None
  then show ?thesis
    using refreshAccessToken_absent[of req e s] refreshAccessToken_presented[of req _ e s]
    by (cases "body_refreshToken req") auto
next
  case (Some t)
  then show ?thesis
    using refreshAccessToken_presented[of req t e s] by simp
qed

text \<open>
  Claim C1 at a concrete request: the cookie carries the refresh token stored on the
  user's record, its signature verifies against the refresh secret and it has not
  expired. The claim promises status 200 and a new pair; the handler throws the 401
  error of its guard and leaves the collection as it was.
\<close>

theorem refreshAccessToken_rejects_stored_token:
  "jwt_verify (cookies_refreshToken refresh_request) (REFRESH_TOKEN_SECRET example_env) (now example_env)
     = Inr token_a \<and>
   map_option refreshToken (users logged_in_state (tk_sub token_a)) = Some (cookies_refreshToken refresh_request) \<and>
   refreshAccessToken example_env refresh_request logged_in_state =
     (Inl (ApiError 401 ''Unauthorized request''), logged_in_state)"
  by (simp add: handler_defs example_defs)

text \<open>
  Claim C2: a refresh request that presents a token (in the cookie, or in the body when
  there is no cookie) different from the one stored on the record of the user it refers
  to fails with a 401 error, and the collection is unchanged. Nothing is assumed about
  the signature or the expiry of the presented token.
\<close>

theorem refreshAccessToken_rejects_other_token:
  assumes "cookies_refreshToken req = Some t \<or>
           cookies_refreshToken req = None \<and> body_refreshToken req = Some t"
      and "users s (tk_sub t) = Some u"
      and "refreshToken u \<noteq> Some t"
  shows "refreshAccessToken e req s = (Inl (ApiError 401 ''Unauthorized request''), s)"
  using assms(1) refreshAccessToken_presented[of req t e s] by blast

text \<open>
  Claim C2 at the example: a token with a valid signature and an expiry in the future,
  but older than the one stored, is rejected with 401.
\<close>

theorem refreshAccessToken_rejects_other_token_witness:
  "(cookies_refreshToken stale_refresh_request = None \<and>
    body_refreshToken stale_refresh_request = Some stale_token) \<and>
   users logged_in_state (tk_sub stale_token) = Some (user_a\<lparr>refreshToken := Some token_a\<rparr>) \<and>
   refreshToken (user_a\<lparr>refreshToken := Some token_a\<rparr>) \<noteq> Some stale_token \<and>
   jwt_verify (Some stale_token) (REFRESH_TOKEN_SECRET example_env) (now example_env) = Inr stale_token \<and>
   refreshAccessToken example_env stale_refresh_request logged_in_state =
     (Inl (ApiError 401 ''Unauthorized request''), logged_in_state)"
proof -
  have h1: "cookies_refreshToken stale_refresh_request = Some stale_token \<or>
            cookies_refreshToken stale_refresh_request = None \<and>
            body_refreshToken stale_refresh_request = Some stale_token"
    by (simp add: stale_refresh_request_def no_request_def)
  have h2: "users logged_in_state (tk_sub stale_token) = Some (user_a\<lparr>refreshToken := Some token_a\<rparr>)"
    by (simp add: logged_in_state_def stale_token_def)
  have h3: "refreshToken (user_a\<lparr>refreshToken := Some token_a\<rparr>) \<noteq> Some stale_token"
    by (simp add: token_a_def stale_token_def)
  have h4: "jwt_verify (Some stale_token) (REFRESH_TOKEN_SECRET example_env) (now example_env) = Inr stale_token"
    by (simp add: jwt_verify_def stale_token_def example_env_def)
  show ?thesis
    using h2 h3 h4 refreshAccessToken_rejects_other_token[OF h1 h2 h3, of example_env]
    by (simp add: stale_refresh_request_def no_request_def)
qed

section \<open>Registration\<close>

text \<open>A required field that is present but blank stops the handler before any effect.\<close>

lemma registerUser_empty_field:
  assumes "feild_empty (body_fullName req) \<or> feild_empty (body_email req) \<or>
           feild_empty (body_username req) \<or> feild_empty (body_password req)"
  shows "registerUser e req s = (Inl (ApiError 400 ''All fields are required''), s)"
  using assms by (auto simp: registerUser_def)

text \<open>What \<open>User.create\<close> returns when it succeeds.\<close>

lemma User_create_success:
  assumes "User_create e n s = (Inr d, s')"
  shows "fst d = next_id s \<and> users s' (next_id s) = Some (snd d) \<and>
         username (snd d) = nu_username n \<and> nu_email n = Some (email (snd d)) \<and>
         nu_fullName n = Some (fullName (snd d)) \<and>
         map_option (bcrypt_hash e) (nu_password n) = password (snd d)"
  using assms
  by (auto simp: User_create_def Let_def split: option.splits if_splits)

text \<open>The response of the last stage of the registration, when it succeeds.\<close>

lemma register_create_success:
  assumes "register_create e req av cover s = (Inr resp, s')"
  shows "status resp = 201 \<and> statusCode (json resp) = 200 \<and>
         (\<exists>created. users s' (next_id s) = Some created \<and>
            map_option toLowerCase (body_username req) = Some (username created) \<and>
            body_email req = Some (email created) \<and>
            body_fullName req = Some (fullName created) \<and>
            map_option (bcrypt_hash e) (body_password req) = password created \<and>
            data (json resp) = UserData (next_id s, created\<lparr>password := None, refreshToken := None\<rparr>))"
proof -
  from assms obtain uname where un: "body_username req = Some uname"
    by (auto simp: register_create_def split: option.splits)
  let ?n = "\<lparr>nu_fullName = body_fullName req, nu_avatar = url av,
             nu_coverImage = (case cover of None \<Rightarrow> [] | Some c \<Rightarrow> url c),
             nu_email = body_email req, nu_password = body_password req,
             nu_username = toLowerCase uname\<rparr>"
  obtain r s1 where cr0: "User_create e ?n s = (r, s1)" by force
  from assms un cr0 obtain d where r: "r = Inr d"
    by (cases r) (auto simp: register_create_def)
  from User_create_success[OF cr0[unfolded r]] have found: "findById (fst d) s1 = Some d"
    by (cases d) (simp add: findById_def)
  from assms un cr0 r found have resp: "resp = \<lparr>status = 201, cookie_ops = [],
                 json = ApiResponce 200 (UserData (select_public d)) ''User registered sucessfully''\<rparr>"
    and s1: "s1 = s'"
    by (auto simp: register_create_def)
  from cr0 r s1 have cr: "User_create e ?n s = (Inr d, s')" by simp
  from User_create_success[OF cr] un resp show ?thesis
    by (cases d) (auto simp: ApiResponce_def select_public_def)
qed

text \<open>A registration that succeeds went through the last stage, on the same collection.\<close>

lemma registerUser_reaches_create:
  assumes "registerUser e req s = (Inr resp, s')"
  shows "\<exists>av cover s2. register_create e req av cover s2 = (Inr resp, s') \<and>
           users s2 = users s \<and> next_id s2 = next_id s"
proof -
  from assms obtain ap cp where up: "register_upload e req ap cp s = (Inr resp, s')"
    by (auto simp: registerUser_def split: if_splits option.splits sum.splits)
  obtain r1 s1 where u1: "uploadOnCloudnary e ap s = (r1, s1)" by force
  obtain r2 s2 where u2: "uploadOnCloudnary e cp s1 = (r2, s2)" by force
  from up u1 u2 obtain av cover where "register_create e req av cover s2 = (Inr resp, s')"
    by (auto simp: register_upload_def split: sum.splits option.splits)
  moreover from uploadOnCloudnary_users[OF u1] uploadOnCloudnary_users[OF u2]
  have "users s2 = users s \<and> next_id s2 = next_id s" by simp
  ultimately show ?thesis by blast
qed

text \<open>
  With \<open>req.coverImage\<close> undefined, a request that carries a cover image array
  never registers: the handler ends in an error, with nothing uploaded or stored.
\<close>

lemma registerUser_cover_attached:
  assumes "files req = Some fs" and "files_coverImage fs = Some arr" and "req_coverImage req = None"
  shows "\<exists>err. registerUser e req s = (Inl err, s)"
  using assms
  by (auto simp: registerUser_def coverImageLocalPath_of_def split: option.splits sum.splits)

text \<open>
  Claim C3 at a concrete payload: the username is missing from the payload (the other
  fields are filled in and the avatar is attached). The claim promises the 400
  validation error; the test \<open>feild?.trim() === ""\<close> lets an undefined field
  through, the avatar is uploaded, and \<open>username.toLowerCase()\<close> throws a
  \<open>TypeError\<close>. No record is persisted.
\<close>

theorem registerUser_missing_username:
  "body_username register_request_no_username = None \<and>
   registerUser example_env register_request_no_username empty_state =
     (Inl (TypeError ''Cannot read properties of undefined (reading toLowerCase)''),
      empty_state\<lparr>local_files := {''public/temp/cover.png''}\<rparr>)"
  by (simp add: handler_defs example_defs)

text \<open>
  Claim C4: whenever the registration succeeds, the response has status 201 and its data
  is the record just created (under the next id, with the lower-cased username, the
  email, the display name and the hashed secret of the payload) with the password and
  the refresh token stripped; so the data has no password field.
\<close>

theorem registerUser_success_response:
  assumes "registerUser e req s = (Inr resp, s')"
  shows "status resp = 201 \<and>
         (\<exists>created. users s' (next_id s) = Some created \<and>
            map_option toLowerCase (body_username req) = Some (username created) \<and>
            body_email req = Some (email created) \<and>
            body_fullName req = Some (fullName created) \<and>
            map_option (bcrypt_hash e) (body_password req) = password created \<and>
            data (json resp) = UserData (next_id s, created\<lparr>password := None, refreshToken := None\<rparr>)) \<and>
         (\<exists>d. data (json resp) = UserData d \<and> password (snd d) = None \<and> refreshToken (snd d) = None)"
proof -
  from registerUser_reaches_create[OF assms] obtain av cover s2 where
    c: "register_create e req av cover s2 = (Inr resp, s')" and
    same: "users s2 = users s" "next_id s2 = next_id s" by blast
  from register_create_success[OF c] same show ?thesis by auto
qed

text \<open>Claim C4 at the spec's example registration.\<close>

theorem registerUser_success_response_witness:
  "registerUser example_env register_request empty_state =
     (Inr \<lparr>status = 201, cookie_ops = [],
           json = \<lparr>statusCode = 200, data = UserData (0, user_a\<lparr>password := None\<rparr>),
                   message = ''User registered sucessfully'', success = True\<rparr>\<rparr>,
      \<lparr>users = (\<lambda>i. None)(0 \<mapsto> user_a), next_id = Suc 0,
       local_files = {''public/temp/cover.png''}\<rparr>) \<and>
   status \<lparr>status = 201, cookie_ops = [],
           json = \<lparr>statusCode = 200, data = UserData (0, user_a\<lparr>password := None\<rparr>),
                   message = ''User registered sucessfully'', success = True\<rparr>\<rparr> = 201 \<and>
   password (user_a\<lparr>password := None\<rparr>) = None \<and>
   refreshToken (user_a\<lparr>password := None\<rparr>) = None"
proof -
  have run: "registerUser example_env register_request empty_state =
     (Inr \<lparr>status = 201, cookie_ops = [],
           json = \<lparr>statusCode = 200, data = UserData (0, user_a\<lparr>password := None\<rparr>),
                   message = ''User registered sucessfully'', success = True\<rparr>\<rparr>,
      \<lparr>users = (\<lambda>i. None)(0 \<mapsto> user_a), next_id = Suc 0,
       local_files = {''public/temp/cover.png''}\<rparr>)"
    by (simp add: handler_defs example_defs)
  show ?thesis
    using run registerUser_success_response[OF run]
    by (simp add: user_a_def)
qed

text \<open>
  Claim C5 at a concrete request: the example registration with a cover image attached
  next to the avatar. The claim promises success with the cover image's URL stored; the
  handler reads \<open>req.coverImage.length\<close>, \<open>req.coverImage\<close> is undefined, and
  the handler throws a \<open>TypeError\<close> before anything is uploaded or stored.
\<close>

theorem registerUser_with_cover_throws:
  "files_coverImage (the (files register_request_with_cover)) =
     Some [\<lparr>file_path = ''public/temp/cover.png''\<rparr>] \<and>
   registerUser example_env register_request_with_cover empty_state =
     (Inl (TypeError ''Cannot read properties of undefined (reading length)''), empty_state)"
  by (simp add: handler_defs example_defs)

text \<open>
  Claim C10 at the example registration, which succeeds: the status set on the response
  is 201 and the code inside the envelope is 200.
\<close>

theorem registerUser_status_differs_from_code:
  "map_sum id (\<lambda>resp. (status resp, statusCode (json resp)))
     (fst (registerUser example_env register_request empty_state)) = Inr (201, 200)"
  by (simp add: handler_defs example_defs)

section \<open>Login\<close>

text \<open>A document found by \<open>findOne\<close> is in the collection and matches the query.\<close>

lemma findOne_or_Some:
  assumes "findOne_or qu qe s = Some d"
  shows "users s (fst d) = Some (snd d) \<and> (qu = Some (username (snd d)) \<or> qe = Some (email (snd d)))"
proof -
  from assms have "d \<in> set (docs s)" and m: "qu = Some (username (snd d)) \<or> qe = Some (email (snd d))"
    by (auto simp: findOne_or_def find_Some_iff)
  then have "users s (fst d) = Some (snd d)"
    by (auto simp: docs_def List.map_filter_def)
  with m show ?thesis by simp
qed

text \<open>Minting for a user that exists: both tokens, and the refresh token stored.\<close>

lemma generate_found:
  assumes "users s i = Some u"
  shows "generateAccessAndRefreshTokens e i s =
     (Inr (generateAccessToken e (i, u), generateRefreshToken e (i, u)),
      s\<lparr>users := (users s)(i \<mapsto> u\<lparr>refreshToken := Some (generateRefreshToken e (i, u))\<rparr>)\<rparr>)"
  using assms by (simp add: generateAccessAndRefreshTokens_def findById_def save_def Let_def)

text \<open>In the answers of login and logout the envelope's code is the status set.\<close>

lemma loginUser_status_is_code:
  assumes "loginUser e req s = (Inr resp, s')"
  shows "status resp = 200 \<and> statusCode (json resp) = 200"
  using assms
  by (auto simp: loginUser_def ApiResponce_def Let_def
      split: if_splits option.splits sum.splits prod.splits)

lemma logoutUser_status_is_code:
  assumes "logoutUser e req s = (Inr resp, s')"
  shows "status resp = 200 \<and> statusCode (json resp) = 200"
  using assms
  by (auto simp: logoutUser_def ApiResponce_def Let_def split: option.splits)

text \<open>
  Claim C6: the login handler fails with the 400 error when neither a username nor an
  email is supplied, with the 404 error when no record matches the supplied username or
  email, and with the 401 error when the supplied password does not match the stored
  hash. In each case the result is the error alone (no token is minted) and the state is
  the one before the call (the stored refresh token is unchanged).
\<close>

theorem loginUser_failures:
  "(falsy (body_username req) \<and> falsy (body_email req) \<longrightarrow>
      loginUser e req s = (Inl (ApiError 400 ''Username or email is required''), s)) \<and>
   (\<not> (falsy (body_username req) \<and> falsy (body_email req)) \<and>
    findOne_or (body_username req) (body_email req) s = None \<longrightarrow>
      loginUser e req s = (Inl (ApiError 404 ''User not exist''), s)) \<and>
   (\<not> (falsy (body_username req) \<and> falsy (body_email req)) \<and>
    findOne_or (body_username req) (body_email req) s = Some usr \<and>
    isPasswordCorrrect e usr (body_password req) = Inr False \<longrightarrow>
      loginUser e req s = (Inl (ApiError 401 ''Invalid user credentials''), s))"
  by (simp add: loginUser_def)

text \<open>Claim C6 at three requests: no identifier, an unknown email, a wrong password.\<close>

theorem loginUser_failures_witness:
  "(falsy (body_username no_request) \<and> falsy (body_email no_request)) \<and>
   loginUser example_env no_request registered_state =
     (Inl (ApiError 400 ''Username or email is required''), registered_state) \<and>
   \<not> (falsy (body_username login_request_unknown) \<and> falsy (body_email login_request_unknown)) \<and>
   findOne_or (body_username login_request_unknown) (body_email login_request_unknown)
     registered_state = None \<and>
   loginUser example_env login_request_unknown registered_state =
     (Inl (ApiError 404 ''User not exist''), registered_state) \<and>
   \<not> (falsy (body_username login_request_wrong_password) \<and>
      falsy (body_email login_request_wrong_password)) \<and>
   findOne_or (body_username login_request_wrong_password)
     (body_email login_request_wrong_password) registered_state = Some (0, user_a) \<and>
   isPasswordCorrrect example_env (0, user_a) (body_password login_request_wrong_password) = Inr False \<and>
   loginUser example_env login_request_wrong_password registered_state =
     (Inl (ApiError 401 ''Invalid user credentials''), registered_state)"
proof -
  have a: "falsy (body_username no_request) \<and> falsy (body_email no_request)"
    by (simp add: falsy_def no_request_def)
  have b: "\<not> (falsy (body_username login_request_unknown) \<and> falsy (body_email login_request_unknown)) \<and>
           findOne_or (body_username login_request_unknown) (body_email login_request_unknown)
             registered_state = None"
    by (simp add: handler_defs example_defs)
  have c: "\<not> (falsy (body_username login_request_wrong_password) \<and>
              falsy (body_email login_request_wrong_password)) \<and>
           findOne_or (body_username login_request_wrong_password)
             (body_email login_request_wrong_password) registered_state = Some (0, user_a) \<and>
           isPasswordCorrrect example_env (0, user_a) (body_password login_request_wrong_password) = Inr False"
    by (simp add: handler_defs example_defs)
  show ?thesis
    using a b c
      loginUser_failures[of no_request example_env registered_state]
      loginUser_failures[of login_request_unknown example_env registered_state]
      loginUser_failures[of login_request_wrong_password example_env registered_state "(0, user_a)"]
    by simp
qed

text \<open>
  Claim C7: a login that finds a record and whose secret is correct answers 200, sets the
  cookies \<open>accessToken\<close> and \<open>refreshToken\<close> (both http-only and secure) to a
  newly minted pair, returns the pair in the body with the record stripped of password
  and refresh token, and stores the refresh token on the record; the subject of both
  tokens is the id of the record found.
\<close>

theorem loginUser_correct_secret:
  assumes "\<not> (falsy (body_username req) \<and> falsy (body_email req))"
      and "findOne_or (body_username req) (body_email req) s = Some (i, u)"
      and "isPasswordCorrrect e (i, u) (body_password req) = Inr True"
  shows "\<exists>accessTok refreshTok.
           loginUser e req s =
             (Inr \<lparr>status = 200,
                   cookie_ops = [Cookie ''accessToken'' (Some accessTok) \<lparr>httpOnly = True, secure = True\<rparr>,
                                 Cookie ''refreshToken'' (Some refreshTok) \<lparr>httpOnly = True, secure = True\<rparr>],
                   json = \<lparr>statusCode = 200,
                           data = LoginData (Some (i, u\<lparr>password := None, refreshToken := None\<rparr>))
                                    accessTok refreshTok,
                           message = ''User logged in succesfully'', success = True\<rparr>\<rparr>,
              s\<lparr>users := (users s)(i \<mapsto> u\<lparr>refreshToken := Some refreshTok\<rparr>)\<rparr>)
         \<and> tk_sub accessTok = i \<and> tk_sub refreshTok = i
         \<and> accessTok = generateAccessToken e (i, u) \<and> refreshTok = generateRefreshToken e (i, u)"
proof -
  from findOne_or_Some[OF assms(2)] have u: "users s i = Some u" by simp
  show ?thesis
    using assms
    by (simp add: loginUser_def generate_found[OF u] findById_def select_public_def options_def
        ApiResponce_def generateAccessToken_def generateRefreshToken_def)
qed

text \<open>Claim C7 at the example: the registered user logs in with the right password.\<close>

theorem loginUser_correct_secret_witness:
  "\<not> (falsy (body_username login_request) \<and> falsy (body_email login_request)) \<and>
   findOne_or (body_username login_request) (body_email login_request) registered_state
     = Some (0, user_a) \<and>
   isPasswordCorrrect example_env (0, user_a) (body_password login_request) = Inr True \<and>
   fst (loginUser example_env login_request registered_state) =
     Inr \<lparr>status = 200,
          cookie_ops = [Cookie ''accessToken''
                          (Some \<lparr>tk_secret = ''access-secret'', tk_sub = 0, tk_iat = 1000, tk_exp = 87400\<rparr>)
                          \<lparr>httpOnly = True, secure = True\<rparr>,
                        Cookie ''refreshToken'' (Some token_a) \<lparr>httpOnly = True, secure = True\<rparr>],
          json = \<lparr>statusCode = 200,
                  data = LoginData (Some (0, user_a\<lparr>password := None\<rparr>))
                           \<lparr>tk_secret = ''access-secret'', tk_sub = 0, tk_iat = 1000, tk_exp = 87400\<rparr>
                           token_a,
                  message = ''User logged in succesfully'', success = True\<rparr>\<rparr> \<and>
   users (snd (loginUser example_env login_request registered_state)) 0 =
     Some (user_a\<lparr>refreshToken := Some token_a\<rparr>)"
proof -
  have h1: "\<not> (falsy (body_username login_request) \<and> falsy (body_email login_request))"
    by (simp add: falsy_def login_request_def no_request_def)
  have h2: "findOne_or (body_username login_request) (body_email login_request) registered_state
              = Some (0, user_a)"
    by (simp add: handler_defs example_defs)
  have h3: "isPasswordCorrrect example_env (0, user_a) (body_password login_request) = Inr True"
    by (simp add: handler_defs example_defs)
  from loginUser_correct_secret[OF h1 h2 h3]
  have "fst (loginUser example_env login_request registered_state) =
          Inr \<lparr>status = 200,
               cookie_ops = [Cookie ''accessToken'' (Some (generateAccessToken example_env (0, user_a)))
                               \<lparr>httpOnly = True, secure = True\<rparr>,
                             Cookie ''refreshToken'' (Some (generateRefreshToken example_env (0, user_a)))
                               \<lparr>httpOnly = True, secure = True\<rparr>],
               json = \<lparr>statusCode = 200,
                       data = LoginData (Some (0, user_a\<lparr>password := None, refreshToken := None\<rparr>))
                                (generateAccessToken example_env (0, user_a))
                                (generateRefreshToken example_env (0, user_a)),
                       message = ''User logged in succesfully'', success = True\<rparr>\<rparr> \<and>
        users (snd (loginUser example_env login_request registered_state)) 0 =
          Some (user_a\<lparr>refreshToken := Some (generateRefreshToken example_env (0, user_a))\<rparr>)"
    by auto
  then show ?thesis
    using h1 h2 h3
    by (simp add: generateAccessToken_def generateRefreshToken_def example_env_def token_a_def user_a_def)
qed

section \<open>Logout\<close>

text \<open>The logout leaves the state as it was: its update has nothing to set.\<close>

lemma logoutUser_state_unchanged:
  "snd (logoutUser e req s) = s"
  by (simp add: logoutUser_def findByIdAndUpdate_def split: option.splits)

text \<open>
  Claim C8 at a concrete request: the user of the example is logged in, with the refresh
  token stored on the record, and logs out with the principal attached. The handler
  answers 200 and clears the cookies \<open>accessToken\<close> and \<open>refreshToken\<close>, as the
  claim says. The claim also promises that the refresh token is removed from the
  principal's record; the update sets the field to \<open>undefined\<close>, the key is
  dropped from the update, and the token is still stored on the record after the logout.
\<close>

theorem logoutUser_keeps_refresh_token:
  "req_user logout_request = Some (0, user_a\<lparr>password := None, refreshToken := None\<rparr>) \<and>
   map_option refreshToken (users logged_in_state 0) = Some (Some token_a) \<and>
   logoutUser example_env logout_request logged_in_state =
     (Inr \<lparr>status = 200,
           cookie_ops = [ClearCookie ''accessToken'' \<lparr>httpOnly = True, secure = True\<rparr>,
                         ClearCookie ''refreshToken'' \<lparr>httpOnly = True, secure = True\<rparr>],
           json = \<lparr>statusCode = 200, data = EmptyData,
                   message = ''User logged out'', success = True\<rparr>\<rparr>,
      logged_in_state) \<and>
   map_option refreshToken
     (users (snd (logoutUser example_env logout_request logged_in_state)) 0) =
     Some (Some token_a)"
  by (simp add: handler_defs example_defs)

end
